theory Spec2Isabelle
  imports Main "HOL-Library.Sublist" "HOL-Library.AList"
begin

section \<open>Strings, case folding and character classes\<close>

text \<open>
  A Python \<open>str\<close> is a sequence of code points. A \<^typ>\<open>char\<close> stands for one code
  point in the range 0..255 (Latin-1), so a \<^typ>\<open>string\<close> is a prompt whose code points
  all lie in that range, and \<^const>\<open>length\<close> counts code points as \<open>len\<close> does.
  On this range \<open>str.lower\<close> works code point by code point: it adds 32 to
  \<open>A..Z\<close>, to U+00C0..U+00D6 and to U+00D8..U+00DE, and leaves every other code point
  alone.
\<close>

definition lower_char :: "char \<Rightarrow> char" where
  "lower_char c =
     (let n = (of_char c :: nat)
      in if (65 \<le> n \<and> n \<le> 90) \<or> (192 \<le> n \<and> n \<le> 214) \<or> (216 \<le> n \<and> n \<le> 222)
         then char_of (n + 32) else c)"

definition lower :: "string \<Rightarrow> string" where
  "lower s = map lower_char s"

text \<open>
  The classes of the \<open>re\<close> module for \<open>str\<close> patterns (Unicode matching, no flags),
  on the same range: \<open>\w\<close> is an alphanumeric code point or the underscore, \<open>\d\<close> a
  decimal digit, \<open>\s\<close> a whitespace code point.
\<close>

definition is_word :: "char \<Rightarrow> bool" where
  "is_word c =
     (let n = (of_char c :: nat)
      in (48 \<le> n \<and> n \<le> 57) \<or> (65 \<le> n \<and> n \<le> 90) \<or> n = 95 \<or> (97 \<le> n \<and> n \<le> 122)
         \<or> n = 170 \<or> n = 178 \<or> n = 179 \<or> n = 181 \<or> n = 185 \<or> n = 186
         \<or> (188 \<le> n \<and> n \<le> 190) \<or> (192 \<le> n \<and> n \<le> 214)
         \<or> (216 \<le> n \<and> n \<le> 246) \<or> (248 \<le> n \<and> n \<le> 255))"

definition is_digit :: "char \<Rightarrow> bool" where
  "is_digit c = (let n = (of_char c :: nat) in 48 \<le> n \<and> n \<le> 57)"

definition is_space :: "char \<Rightarrow> bool" where
  "is_space c =
     (let n = (of_char c :: nat)
      in (9 \<le> n \<and> n \<le> 13) \<or> (28 \<le> n \<and> n \<le> 32) \<or> n = 133 \<or> n = 160)"

section \<open>The regular expressions of the rule table\<close>

text \<open>
  The patterns of the rule table use five constructs: the word boundary \<open>\b\<close>, literal
  text, alternation \<open>(a|b|...)\<close>, concatenation, and one or more code points of a
  class (\<open>\s+\<close>, \<open>[\d\+\-...]+\<close>). A class is a list of items.
\<close>

datatype cls_item = Digit | Space | Ch char

datatype regex =
    Boundary
  | Literal string
  | Repeat1 "cls_item list"
  | Branch "regex list"
  | Sequence "regex list"

fun in_item :: "cls_item \<Rightarrow> char \<Rightarrow> bool" where
  "in_item Digit c = is_digit c"
| "in_item Space c = is_space c"
| "in_item (Ch x) c = (c = x)"

definition in_class :: "cls_item list \<Rightarrow> char \<Rightarrow> bool" where
  "in_class items c = list_ex (\<lambda>it. in_item it c) items"

text \<open>
  \<open>\b\<close> at position \<open>i\<close> of \<open>s\<close>: never in the empty string; otherwise the code point
  before \<open>i\<close> and the one at \<open>i\<close> differ in being word characters, where the outside of
  the string counts as a non-word.
\<close>

definition at_boundary :: "string \<Rightarrow> nat \<Rightarrow> bool" where
  "at_boundary s i =
     (s \<noteq> [] \<and> ((0 < i \<and> is_word (s ! (i - 1))) \<noteq> (i < length s \<and> is_word (s ! i))))"

text \<open>
  \<open>match_at s r i\<close> lists the positions where a match of \<open>r\<close> that starts at position
  \<open>i\<close> of \<open>s\<close> can end. \<open>re.search\<close> backtracks over all of them and tries every
  start position, so it finds a match exactly when one of these lists is non-empty.
\<close>

fun match_at :: "string \<Rightarrow> regex \<Rightarrow> nat \<Rightarrow> nat list" where
  "match_at s Boundary i = (if at_boundary s i then [i] else [])"
| "match_at s (Literal w) i = (if prefix w (drop i s) then [i + length w] else [])"
| "match_at s (Repeat1 items) i =
     map (\<lambda>k. i + k) [1..<Suc (length (takeWhile (in_class items) (drop i s)))]"
| "match_at s (Branch rs) i = concat (map (\<lambda>r. match_at s r i) rs)"
| "match_at s (Sequence []) i = [i]"
| "match_at s (Sequence (r # rs)) i = concat (map (match_at s (Sequence rs)) (match_at s r i))"

definition re_search :: "regex \<Rightarrow> string \<Rightarrow> bool" where
  "re_search pattern s = list_ex (\<lambda>i. match_at s pattern i \<noteq> []) [0..<Suc (length s)]"

text \<open>\<open>\b(w1|w2|...)\b\<close>, the shape of most patterns of the table.\<close>

definition word_of :: "string list \<Rightarrow> regex" where
  "word_of ws = Sequence [Boundary, Branch (map Literal ws), Boundary]"

section \<open>The rule table\<close>

record rule =
  agent :: string
  patterns :: "regex list"
  keywords_list :: "string list"
  reason :: string

definition codex_rule :: rule where
  "codex_rule = \<lparr>
     agent = ''codex'',
     patterns = [
       word_of [''code'', ''program'', ''function'', ''script'', ''debug'', ''compile'',
                ''syntax'', ''api'', ''app'', ''software'', ''develop''],
       word_of [''react'', ''vue'', ''angular'', ''django'', ''flask'', ''node'', ''express'',
                ''python'', ''java'', ''javascript'', ''html'', ''css''],
       word_of [''algorithm'', ''data structure'', ''class'', ''object'', ''method'',
                ''variable'', ''loop'', ''array''],
       word_of [''programming'', ''coding'', ''software development'', ''web dev'']],
     keywords_list = [''write code'', ''fix bug'', ''create function'', ''program'', ''debug'',
                      ''build app''],
     reason = ''Programming/code request detected'' \<rparr>"

definition perplexity_rule :: rule where
  "perplexity_rule = \<lparr>
     agent = ''perplexity'',
     patterns = [
       word_of [''link'', ''source'', ''reference'', ''citation'', ''article'', ''research'',
                ''paper'', ''find'', ''search'', ''google'', ''look up''],
       word_of [''where can I'', ''find me'', ''search for'', ''give me sources'',
                ''list of resources'']],
     keywords_list = [''sources'', ''references'', ''links'', ''citations'', ''research''],
     reason = ''Source/link request detected'' \<rparr>"

definition gemini_rule :: rule where
  "gemini_rule = \<lparr>
     agent = ''gemini'',
     patterns = [
       word_of [''fact'', ''history'', ''date'', ''location'', ''famous'', ''population'',
                ''culture'', ''definition'', ''meaning''],
       Sequence [Boundary,
                 Branch (map Literal [''who'', ''what'', ''where'', ''when'']),
                 Repeat1 [Space],
                 Branch (map Literal [''is'', ''are'', ''was'', ''were'', ''did'', ''does'']),
                 Boundary],
       word_of [''factual'', ''knowledge'', ''google'', ''search'', ''information'',
                ''dictionary'']],
     keywords_list = [''tell me about'', ''what is'', ''who is'', ''when did'', ''where is'',
                      ''define''],
     reason = ''Factual knowledge/lookup request detected'' \<rparr>"

definition deepseek_rule :: rule where
  "deepseek_rule = \<lparr>
     agent = ''deepseek'',
     patterns = [
       word_of [''explain in detail'', ''comprehensive'', ''thorough'', ''in-depth'',
                ''elaborate'', ''detailed''],
       word_of [''long form'', ''essay'', ''extensive'', ''complete guide'',
                ''full explanation'']],
     keywords_list = [''explain thoroughly'', ''detailed analysis'', ''comprehensive guide'',
                      ''in depth''],
     reason = ''Long-form explanation requested'' \<rparr>"

definition gpai_rule :: rule where
  "gpai_rule = \<lparr>
     agent = ''gpai'',
     patterns = [
       Repeat1 [Digit, Ch (CHR ''+''), Ch (CHR ''-''), Ch (CHR ''*''), Ch (CHR ''/''),
                Ch (CHR ''=''), Ch (CHR ''%''), Ch (CHR ''(''), Ch (CHR '')'')],
       word_of [''calculate'', ''solve'', ''equation'', ''math'', ''algebra'', ''calculus'',
                ''geometry'', ''puzzle'', ''logic''],
       word_of [''compute'', ''sum'', ''difference'', ''product'', ''quotient'', ''modulo'',
                ''derivative'', ''integral'']],
     keywords_list = [''solve this'', ''calculate'', ''math problem'', ''equation'', ''formula''],
     reason = ''Math/logic/puzzle request detected'' \<rparr>"

definition chatgpt_rule :: rule where
  "chatgpt_rule = \<lparr>
     agent = ''chatgpt'',
     patterns = [
       word_of [''opinion'', ''thoughts'', ''perspective'', ''general'', ''anyway'',
                ''basically'', ''overall'']],
     keywords_list = [],
     reason = ''General knowledge/conversational query'' \<rparr>"

definition classification_rules :: "rule list" where
  "classification_rules =
     [codex_rule, perplexity_rule, gemini_rule, deepseek_rule, gpai_rule, chatgpt_rule]"

section \<open>Scoring\<close>

text \<open>
  \<open>scores\<close> is a Python dict: keys keep their insertion order, which the choice among
  tied agents reads, so it is an association list. \<^const>\<open>AList.update\<close> overwrites a
  key where it stands and appends a new one, as a dict assignment does. Reading a missing
  key, \<open>max\<close> of nothing and indexing an empty list raise; each is an error value.
\<close>

datatype py_error = KeyError | ValueError | IndexError

type_synonym scores = "(string \<times> int) list"

definition init_scores :: "rule list \<Rightarrow> scores" where
  "init_scores rules = fold (\<lambda>r sc. AList.update (agent r) 0 sc) rules []"

definition add_score :: "string \<Rightarrow> int \<Rightarrow> scores \<Rightarrow> py_error + scores" where
  "add_score a n sc =
     (case map_of sc a of
        None \<Rightarrow> Inl KeyError
      | Some v \<Rightarrow> Inr (AList.update a (v + n) sc))"

fun score_patterns :: "string \<Rightarrow> string \<Rightarrow> regex list \<Rightarrow> scores \<Rightarrow> py_error + scores" where
  "score_patterns prompt_lower a [] sc = Inr sc"
| "score_patterns prompt_lower a (pattern # ps) sc =
     (if re_search pattern prompt_lower
      then (case add_score a 3 sc of
              Inl e \<Rightarrow> Inl e
            | Inr sc' \<Rightarrow> score_patterns prompt_lower a ps sc')
      else score_patterns prompt_lower a ps sc)"

fun score_keywords :: "string \<Rightarrow> string \<Rightarrow> string list \<Rightarrow> scores \<Rightarrow> py_error + scores" where
  "score_keywords prompt_lower a [] sc = Inr sc"
| "score_keywords prompt_lower a (keyword # ks) sc =
     (if sublist keyword prompt_lower
      then (case add_score a 5 sc of
              Inl e \<Rightarrow> Inl e
            | Inr sc' \<Rightarrow> score_keywords prompt_lower a ks sc')
      else score_keywords prompt_lower a ks sc)"

fun score_rules :: "string \<Rightarrow> rule list \<Rightarrow> scores \<Rightarrow> py_error + scores" where
  "score_rules prompt_lower [] sc = Inr sc"
| "score_rules prompt_lower (r # rs) sc =
     (case score_patterns prompt_lower (agent r) (patterns r) sc of
        Inl e \<Rightarrow> Inl e
      | Inr sc1 \<Rightarrow>
          (case score_keywords prompt_lower (agent r) (keywords_list r) sc1 of
             Inl e \<Rightarrow> Inl e
           | Inr sc2 \<Rightarrow> score_rules prompt_lower rs sc2))"

text \<open>The scores as they stand after the baseline bonus (source lines 121 to 138).\<close>

definition final_scores :: "string \<Rightarrow> py_error + scores" where
  "final_scores prompt_lower =
     (case score_rules prompt_lower classification_rules (init_scores classification_rules) of
        Inl e \<Rightarrow> Inl e
      | Inr sc \<Rightarrow> add_score ''chatgpt'' 1 sc)"

fun max_of :: "int list \<Rightarrow> py_error + int" where
  "max_of [] = Inl ValueError"
| "max_of (x # xs) = Inr (fold max xs x)"

section \<open>The decision\<close>

record routing =
  routing_agent :: string
  routing_reason :: string

text \<open>The loop that looks the reason up, with the return that follows it.\<close>

fun reason_of :: "string \<Rightarrow> rule list \<Rightarrow> routing" where
  "reason_of selected_agent [] =
     \<lparr>routing_agent = ''chatgpt'', routing_reason = ''Default routing''\<rparr>"
| "reason_of selected_agent (r # rs) =
     (if agent r = selected_agent
      then \<lparr>routing_agent = selected_agent, routing_reason = reason r\<rparr>
      else reason_of selected_agent rs)"

text \<open>What the code does once \<open>max_score\<close> is not 0 (source lines 150 to 168).\<close>

definition select_top :: "scores \<Rightarrow> int \<Rightarrow> py_error + routing" where
  "select_top sc max_score =
     (let top_agents = map fst (filter (\<lambda>(a, score). score = max_score) sc)
      in case top_agents of
           [] \<Rightarrow> Inl IndexError
         | selected_agent # _ \<Rightarrow> Inr (reason_of selected_agent classification_rules))"

definition route_prompt :: "string \<Rightarrow> py_error + routing" where
  "route_prompt prompt_text =
     (let prompt_lower = lower prompt_text
      in case final_scores prompt_lower of
           Inl e \<Rightarrow> Inl e
         | Inr sc \<Rightarrow>
             (case max_of (map snd sc) of
                Inl e \<Rightarrow> Inl e
              | Inr max_score \<Rightarrow>
                  if max_score = 0
                  then Inr \<lparr>routing_agent = ''chatgpt'',
                            routing_reason =
                              ''No specific intent detected - routing to general assistant''\<rparr>
                  else select_top sc max_score))"

section \<open>The score the specification describes\<close>

text \<open>
  The specification's account of a rule's score: 3 for each pattern of the rule that matches
  somewhere in the lowercased prompt, 5 for each keyword of the rule that occurs in it, and
  the baseline 1 for \<open>chatgpt\<close> alone. It is compared with \<^const>\<open>final_scores\<close> below.
\<close>

definition count_patterns :: "string \<Rightarrow> rule \<Rightarrow> nat" where
  "count_patterns prompt_lower r =
     length (filter (\<lambda>pattern. re_search pattern prompt_lower) (patterns r))"

definition count_keywords :: "string \<Rightarrow> rule \<Rightarrow> nat" where
  "count_keywords prompt_lower r =
     length (filter (\<lambda>keyword. sublist keyword prompt_lower) (keywords_list r))"

definition spec_score :: "string \<Rightarrow> rule \<Rightarrow> int" where
  "spec_score prompt_lower r =
     3 * int (count_patterns prompt_lower r) + 5 * int (count_keywords prompt_lower r)
     + (if agent r = ''chatgpt'' then 1 else 0)"

section \<open>The request handlers around the classifier\<close>

text \<open>
  The handlers run against two pieces of state: the module's \<open>subscriptions\<close> dict and
  the \<open>request_history\<close> entry of the session, which is absent until a handler creates
  it. A stored subscription value is read for its truth value only.
\<close>

record history_entry =
  he_prompt :: string
  he_agent :: string
  he_timestamp :: string
  he_routing_reason :: string

record world =
  subscriptions :: "(string \<times> bool) list"
  session_history :: "history_entry list option"

text \<open>
  A mock responder returns its display name, its colour, one of three canned sentences
  picked by \<open>random.choice\<close>, and the clock reading. The picked sentence and the clock
  reading come from outside, so they are the parameters \<open>text\<close> and \<open>now\<close>.
\<close>

record response =
  resp_agent :: string
  agent_color :: string
  response_text :: string
  timestamp :: string

definition call_chatgpt :: "string \<Rightarrow> string \<Rightarrow> response" where
  "call_chatgpt text now =
     \<lparr>resp_agent = ''ChatGPT'', agent_color = ''#10a37f'', response_text = text, timestamp = now\<rparr>"

definition call_gemini :: "string \<Rightarrow> string \<Rightarrow> response" where
  "call_gemini text now =
     \<lparr>resp_agent = ''Gemini'', agent_color = ''#1a73e8'', response_text = text, timestamp = now\<rparr>"

definition call_deepseek :: "string \<Rightarrow> string \<Rightarrow> response" where
  "call_deepseek text now =
     \<lparr>resp_agent = ''DeepSeek'', agent_color = ''#4b6bfb'', response_text = text, timestamp = now\<rparr>"

definition call_perplexity :: "string \<Rightarrow> string \<Rightarrow> response" where
  "call_perplexity text now =
     \<lparr>resp_agent = ''Perplexity'', agent_color = ''#5436da'', response_text = text, timestamp = now\<rparr>"

definition call_gpai :: "string \<Rightarrow> string \<Rightarrow> response" where
  "call_gpai text now =
     \<lparr>resp_agent = ''GPAI'', agent_color = ''#ff6b4a'', response_text = text, timestamp = now\<rparr>"

definition call_codex :: "string \<Rightarrow> string \<Rightarrow> response" where
  "call_codex text now =
     \<lparr>resp_agent = ''Codex'', agent_color = ''#ff6e4a'', response_text = text, timestamp = now\<rparr>"

definition agent_functions :: "(string \<times> (string \<Rightarrow> string \<Rightarrow> response)) list" where
  "agent_functions =
     [(''chatgpt'', call_chatgpt), (''gemini'', call_gemini), (''deepseek'', call_deepseek),
      (''perplexity'', call_perplexity), (''gpai'', call_gpai), (''codex'', call_codex)]"

text \<open>
  The JSON body of a request is an object with string values;
  \<open>data.get('prompt', '')\<close> reads it.
\<close>

definition prompt_of :: "(string \<times> string) list \<Rightarrow> string" where
  "prompt_of data = (case map_of data ''prompt'' of None \<Rightarrow> [] | Some p \<Rightarrow> p)"

definition is_subscribed :: "world \<Rightarrow> string \<Rightarrow> bool" where
  "is_subscribed w agent_name =
     (case map_of (subscriptions w) agent_name of None \<Rightarrow> False | Some b \<Rightarrow> b)"

text \<open>
  The reply of \<open>/prompt\<close>: the fallback reply for an unsubscribed agent carries the agent
  that was classified and the answer of the default responder; the successful reply carries
  the routing decision and the answer. The fixed texts of the fallback reply are left out.
\<close>

datatype prompt_reply =
    Fallback_reply string response
  | Success_reply routing response

definition handle_prompt ::
  "world \<Rightarrow> (string \<times> string) list \<Rightarrow> string \<Rightarrow> string \<Rightarrow> py_error + (prompt_reply \<times> world)" where
  "handle_prompt w data text now =
     (let prompt_text = prompt_of data
      in case route_prompt prompt_text of
           Inl e \<Rightarrow> Inl e
         | Inr routing \<Rightarrow>
             (let agent_name = routing_agent routing
              in if \<not> is_subscribed w agent_name
                 then Inr (Fallback_reply agent_name (call_chatgpt text now), w)
                 else
                   (let agent_function =
                          (case map_of agent_functions agent_name of
                             None \<Rightarrow> call_chatgpt
                           | Some f \<Rightarrow> f);
                        response = agent_function text now;
                        history_entry =
                          \<lparr>he_prompt = take 60 prompt_text
                                         @ (if length prompt_text > 60 then ''...'' else []),
                           he_agent = resp_agent response,
                           he_timestamp = timestamp response,
                           he_routing_reason = routing_reason routing\<rparr>;
                        history =
                          (case session_history w of None \<Rightarrow> [] | Some h \<Rightarrow> h);
                        history' = take 10 (history_entry # history)
                    in Inr (Success_reply routing response,
                            w\<lparr>session_history := Some history'\<rparr>))))"

section \<open>Facts about scoring and selection\<close>

lemma lower_char_idem: "lower_char (lower_char c) = lower_char c"
  by (simp add: lower_char_def Let_def)

lemma lower_idem: "lower (lower s) = lower s"
  by (simp add: lower_def lower_char_idem)

lemma add_score_Some: "map_of sc a = Some v \<Longrightarrow> add_score a n sc = Inr (AList.update a (v + n) sc)"
  by (simp add: add_score_def)

lemma score_patterns_eq:
  "map_of sc a = Some v \<Longrightarrow>
   score_patterns pl a ps sc =
     Inr (AList.update a (v + 3 * int (length (filter (\<lambda>p. re_search p pl) ps))) sc)"
proof (induction ps arbitrary: sc v)
  case Nil
  then show ?case by (simp add: update_triv)
next
  case (Cons p ps)
  show ?case
  proof (cases "re_search p pl")
    case True
    have "map_of (AList.update a (v + 3) sc) a = Some (v + 3)"
      by (simp add: update_conv')
    from Cons.IH [OF this] True Cons.prems show ?thesis
      by (simp add: add_score_Some algebra_simps)
  next
    case False
    with Cons show ?thesis by simp
  qed
qed

lemma score_keywords_eq:
  "map_of sc a = Some v \<Longrightarrow>
   score_keywords pl a ks sc =
     Inr (AList.update a (v + 5 * int (length (filter (\<lambda>k. sublist k pl) ks))) sc)"
proof (induction ks arbitrary: sc v)
  case Nil
  then show ?case by (simp add: update_triv)
next
  case (Cons k ks)
  show ?case
  proof (cases "sublist k pl")
    case True
    have "map_of (AList.update a (v + 5) sc) a = Some (v + 5)"
      by (simp add: update_conv')
    from Cons.IH [OF this] True Cons.prems show ?thesis
      by (simp add: add_score_Some algebra_simps)
  next
    case False
    with Cons show ?thesis by simp
  qed
qed

lemma score_rule_eq:
  "map_of sc (agent r) = Some v \<Longrightarrow>
   score_rules pl (r # rs) sc =
     score_rules pl rs
       (AList.update (agent r) (v + 3 * int (count_patterns pl r) + 5 * int (count_keywords pl r)) sc)"
  by (simp add: score_patterns_eq score_keywords_eq update_conv' count_patterns_def count_keywords_def)

lemma score_rule_step:
  "map_of sc (agent r) \<noteq> None \<Longrightarrow>
   score_rules pl (r # rs) sc =
     score_rules pl rs
       (AList.update (agent r)
          (the (map_of sc (agent r)) + 3 * int (count_patterns pl r) + 5 * int (count_keywords pl r)) sc)"
  using score_rule_eq [of sc r _ pl rs] by auto

lemma agent_simps:
  "agent codex_rule = ''codex''" "agent perplexity_rule = ''perplexity''"
  "agent gemini_rule = ''gemini''" "agent deepseek_rule = ''deepseek''"
  "agent gpai_rule = ''gpai''" "agent chatgpt_rule = ''chatgpt''"
  by (simp_all add: codex_rule_def perplexity_rule_def gemini_rule_def deepseek_rule_def
        gpai_rule_def chatgpt_rule_def)

lemma declared_agents:
  "map agent classification_rules =
     [''codex'', ''perplexity'', ''gemini'', ''deepseek'', ''gpai'', ''chatgpt'']"
  by (simp add: classification_rules_def agent_simps)

lemma init_scores_eq:
  "init_scores classification_rules =
     [(''codex'', 0), (''perplexity'', 0), (''gemini'', 0), (''deepseek'', 0), (''gpai'', 0),
      (''chatgpt'', 0)]"
  by (simp add: init_scores_def classification_rules_def agent_simps)

lemma final_scores_eq:
  "final_scores pl = Inr (map (\<lambda>r. (agent r, spec_score pl r)) classification_rules)"
  unfolding final_scores_def init_scores_eq
  by (simp add: classification_rules_def score_rule_step agent_simps spec_score_def add_score_Some
           del: score_rules.simps(2))

lemma final_scores_keys: "final_scores pl = Inr sc \<Longrightarrow> map fst sc = map agent classification_rules"
  by (auto simp: final_scores_eq comp_def)

lemma spec_score_nonneg: "0 \<le> spec_score pl r"
  by (simp add: spec_score_def)

lemma chatgpt_score_pos: "1 \<le> spec_score pl chatgpt_rule"
  by (simp add: spec_score_def agent_simps)

lemma max_of_Max: "xs \<noteq> [] \<Longrightarrow> max_of xs = Inr (Max (set xs))"
proof (cases xs)
  case Nil
  assume "xs \<noteq> []"
  with Nil show ?thesis by simp
next
  case (Cons x ys)
  then show ?thesis using Max.set_eq_fold [of x ys] by simp
qed

lemma reason_of_agent:
  "a \<in> set (map agent rs) \<Longrightarrow> routing_agent (reason_of a rs) = a"
  by (induction rs) auto

text \<open>The first entry that carries the maximum is the one selected.\<close>

lemma select_top_split:
  assumes "max_of (map snd sc) = Inr m"
  shows "\<exists>before a after.
           sc = before @ (a, m) # after \<and>
           (\<forall>(b, s) \<in> set before. s < m) \<and> (\<forall>(b, s) \<in> set after. s \<le> m) \<and>
           select_top sc m = Inr (reason_of a classification_rules)"
proof -
  from assms have ne: "sc \<noteq> []" by (cases sc) auto
  with assms have m: "m = Max (set (map snd sc))"
    by (simp add: max_of_Max)
  have le: "s \<le> m" if "(b, s) \<in> set sc" for b s
    unfolding m using that by (intro Max_ge) (auto intro: rev_image_eqI)
  have "m \<in> set (map snd sc)"
    unfolding m using ne by (intro Max_in) auto
  then have "\<exists>x \<in> set sc. snd x = m" by auto
  from split_list_first_prop [OF this]
  obtain before x after where
    sc: "sc = before @ x # after" and x: "snd x = m" and bf: "\<forall>y \<in> set before. snd y \<noteq> m"
    by blast
  obtain a where xa: "x = (a, m)" using x by (cases x) auto
  have lt: "\<forall>(b, s) \<in> set before. s < m"
  proof (clarify)
    fix b s assume "(b, s) \<in> set before"
    then have "s \<le> m" "s \<noteq> m" using le [of b s] bf sc by auto
    then show "s < m" by simp
  qed
  have le': "\<forall>(b, s) \<in> set after. s \<le> m"
    using le sc by auto
  have "filter (\<lambda>(a, score). score = m) before = []"
    using bf by (auto simp: filter_empty_conv)
  then have "select_top sc m = Inr (reason_of a classification_rules)"
    by (simp add: select_top_def sc xa)
  with sc xa lt le' show ?thesis by blast
qed

lemma max_score_pos:
  assumes "final_scores pl = Inr sc"
  shows "\<exists>m. max_of (map snd sc) = Inr m \<and> 1 \<le> m"
proof -
  from assms have sc: "sc = map (\<lambda>r. (agent r, spec_score pl r)) classification_rules"
    by (simp add: final_scores_eq)
  then have ne: "map snd sc \<noteq> []" by (simp add: classification_rules_def)
  have "spec_score pl chatgpt_rule \<in> set (map snd sc)"
    by (simp add: sc classification_rules_def)
  then have "spec_score pl chatgpt_rule \<le> Max (set (map snd sc))"
    by (intro Max_ge) auto
  with chatgpt_score_pos [of pl] have "1 \<le> Max (set (map snd sc))" by linarith
  with ne show ?thesis by (simp add: max_of_Max)
qed

lemma route_prompt_select:
  assumes "final_scores (lower p) = Inr sc" and "max_of (map snd sc) = Inr m" and "1 \<le> m"
  shows "route_prompt p = select_top sc m"
  using assms by (simp add: route_prompt_def)

lemma route_prompt_returns:
  "\<exists>d. route_prompt p = Inr d \<and> routing_agent d \<in> set (map agent classification_rules)"
proof -
  obtain sc where sc: "final_scores (lower p) = Inr sc" by (simp add: final_scores_eq)
  from max_score_pos [OF sc] obtain m where m: "max_of (map snd sc) = Inr m" "1 \<le> m" by blast
  have keys: "map fst sc = map agent classification_rules"
    by (rule final_scores_keys [OF sc])
  from select_top_split [OF m(1)] obtain before a after where
    split: "sc = before @ (a, m) # after"
    and sel: "select_top sc m = Inr (reason_of a classification_rules)"
    by blast
  have "a \<in> set (map fst sc)" using split(1) by simp
  then have in_table: "a \<in> set (map agent classification_rules)" by (simp only: keys)
  then have a: "routing_agent (reason_of a classification_rules) = a"
    by (rule reason_of_agent)
  have "route_prompt p = Inr (reason_of a classification_rules)"
    using route_prompt_select [OF sc m] sel by simp
  with a in_table show ?thesis by auto
qed

section \<open>The claims\<close>

subsection \<open>C1: the empty prompt\<close>

text \<open>
  Claim C1 says that the empty prompt is routed to \<open>chatgpt\<close> with the reason
  \<open>No specific intent detected - routing to general assistant\<close>. The agent is right, the
  reason is not: the baseline bonus makes the maximum 1, so the branch that carries that
  reason is skipped.
\<close>

theorem empty_prompt_reason_not_fallback:
  "route_prompt '''' \<noteq>
     Inr \<lparr>routing_agent = ''chatgpt'',
          routing_reason = ''No specific intent detected - routing to general assistant''\<rparr>"
  by code_simp

text \<open>
  Claim C1, amended: the empty prompt is routed to \<open>chatgpt\<close> with the reason of the
  \<open>chatgpt\<close> rule, \<open>General knowledge/conversational query\<close>.
\<close>

theorem empty_prompt_routes_to_chatgpt:
  "route_prompt '''' =
     Inr \<lparr>routing_agent = ''chatgpt'',
          routing_reason = ''General knowledge/conversational query''\<rparr>"
  by code_simp

subsection \<open>C2: ties go to the rule declared first\<close>

text \<open>
  Claim C2: on every prompt the scores are keyed in declaration order (codex, perplexity,
  gemini, deepseek, gpai, chatgpt), and the agent returned carries the maximum score while
  every agent declared before it scores strictly less and every agent declared after it
  scores at most as much. So among tied agents the one declared first wins; the result is
  a function of the prompt, hence the same on every call.
\<close>

theorem tie_break_first_declared:
  "\<exists>sc m d before after.
     final_scores (lower p) = Inr sc \<and>
     map fst sc = [''codex'', ''perplexity'', ''gemini'', ''deepseek'', ''gpai'', ''chatgpt''] \<and>
     max_of (map snd sc) = Inr m \<and>
     route_prompt p = Inr d \<and>
     sc = before @ (routing_agent d, m) # after \<and>
     (\<forall>(a, s) \<in> set before. s < m) \<and> (\<forall>(a, s) \<in> set after. s \<le> m)"
proof -
  obtain sc where sc: "final_scores (lower p) = Inr sc" by (simp add: final_scores_eq)
  from max_score_pos [OF sc] obtain m where m: "max_of (map snd sc) = Inr m" "1 \<le> m" by blast
  have keys: "map fst sc = map agent classification_rules"
    by (rule final_scores_keys [OF sc])
  from select_top_split [OF m(1)] obtain before a after where
    split: "sc = before @ (a, m) # after"
      "\<forall>(b, s) \<in> set before. s < m" "\<forall>(b, s) \<in> set after. s \<le> m"
    and sel: "select_top sc m = Inr (reason_of a classification_rules)"
    by blast
  have "a \<in> set (map fst sc)" using split(1) by simp
  then have a: "routing_agent (reason_of a classification_rules) = a"
    by (simp add: keys reason_of_agent del: set_map)
  have "route_prompt p = Inr (reason_of a classification_rules)"
    using route_prompt_select [OF sc m] sel by simp
  with sc keys m(1) split a show ?thesis
    unfolding declared_agents
    by (intro exI [of _ sc] exI [of _ m] exI [of _ "reason_of a classification_rules"]
          exI [of _ before] exI [of _ after]) simp
qed

text \<open>
  On \<open>code math\<close> the rules of \<open>codex\<close> and \<open>gpai\<close> both score 3, the maximum;
  \<open>codex\<close>, declared first, is returned.
\<close>

theorem tie_break_first_declared_witness:
  "\<exists>d. route_prompt ''code math'' = Inr d \<and> routing_agent d = ''codex''"
proof -
  from tie_break_first_declared [of "''code math''"] obtain sc m d before after where
    fs: "final_scores (lower ''code math'') = Inr sc" and
    mx: "max_of (map snd sc) = Inr m" and
    rp: "route_prompt ''code math'' = Inr d" and
    split: "sc = before @ (routing_agent d, m) # after" and
    lt: "\<forall>(a, s) \<in> set before. s < m"
    by blast
  have "final_scores (lower ''code math'') =
      Inr [(''codex'', 3), (''perplexity'', 0), (''gemini'', 0), (''deepseek'', 0), (''gpai'', 3),
           (''chatgpt'', 1)]"
    by code_simp
  with fs have sc: "sc = [(''codex'', 3), (''perplexity'', 0), (''gemini'', 0), (''deepseek'', 0),
                          (''gpai'', 3), (''chatgpt'', 1)]"
    by simp
  with mx have m: "m = 3" by simp
  have "before = []"
  proof (cases before)
    case (Cons x xs)
    with split sc have "x = (''codex'', 3)" by simp
    with Cons lt m show ?thesis by simp
  qed simp
  with split sc have "routing_agent d = ''codex''" by simp
  with rp show ?thesis by blast
qed

subsection \<open>C3: what a score is made of\<close>

text \<open>
  Claim C3: for every prompt, the score of each agent is 3 times the number of patterns of
  its rule that match somewhere in the lowercased prompt, plus 5 times the number of keywords
  of its rule that occur in the lowercased prompt, plus 1 for \<open>chatgpt\<close> only; a pattern
  counts once however often it matches. Each agent has one rule.
\<close>

theorem final_scores_spec_score:
  "final_scores (lower p) =
     Inr (map (\<lambda>r. (agent r, spec_score (lower p) r)) classification_rules)
   \<and> map agent classification_rules =
       [''codex'', ''perplexity'', ''gemini'', ''deepseek'', ''gpai'', ''chatgpt'']"
  by (simp add: final_scores_eq declared_agents)

subsection \<open>C4: a keyword and a pattern for codex\<close>

text \<open>
  Claim C4: on \<open>please fix bug in my script\<close> the keyword \<open>fix bug\<close> is the only
  keyword of the \<open>codex\<close> rule that occurs and the first pattern, through its alternative
  \<open>script\<close>, the only one that matches, so \<open>codex\<close> scores 8; every other agent scores
  less (\<open>chatgpt\<close> 1, the rest 0), and \<open>codex\<close> is returned.
\<close>

theorem fix_bug_script_routes_to_codex:
  "final_scores (lower ''please fix bug in my script'') =
     Inr [(''codex'', 8), (''perplexity'', 0), (''gemini'', 0), (''deepseek'', 0), (''gpai'', 0),
          (''chatgpt'', 1)]
   \<and> filter (\<lambda>keyword. sublist keyword (lower ''please fix bug in my script''))
        (keywords_list codex_rule) = [''fix bug'']
   \<and> filter (\<lambda>pattern. re_search pattern (lower ''please fix bug in my script''))
        (patterns codex_rule) = [patterns codex_rule ! 0]
   \<and> re_search (Sequence [Boundary, Literal ''script'', Boundary])
        (lower ''please fix bug in my script'')
   \<and> route_prompt ''please fix bug in my script'' =
       Inr \<lparr>routing_agent = ''codex'', routing_reason = ''Programming/code request detected''\<rparr>"
  by code_simp

subsection \<open>C5: the maximum is never 0\<close>

text \<open>
  Claim C5: for every prompt the scores are computed without error, their maximum is at
  least 1, and the result is the one computed after the test \<open>max_score == 0\<close> has
  failed: the branch under that test is never taken.
\<close>

theorem max_score_at_least_one:
  "\<exists>sc m. final_scores (lower p) = Inr sc \<and> max_of (map snd sc) = Inr m \<and> 1 \<le> m
     \<and> route_prompt p = select_top sc m"
proof -
  obtain sc where sc: "final_scores (lower p) = Inr sc" by (simp add: final_scores_eq)
  from max_score_pos [OF sc] obtain m where m: "max_of (map snd sc) = Inr m" "1 \<le> m" by blast
  from route_prompt_select [OF sc m] sc m show ?thesis by blast
qed

subsection \<open>C6: the case of the prompt does not matter\<close>

text \<open>
  Claim C6: a prompt and its lowercased form get the same decision; in particular
  \<open>FIX BUG\<close> and \<open>fix bug\<close> do.
\<close>

theorem route_prompt_lower:
  "route_prompt (lower p) = route_prompt p
   \<and> route_prompt ''FIX BUG'' = route_prompt ''fix bug''"
proof -
  have eq: "route_prompt (lower q) = route_prompt q" for q
    by (simp add: route_prompt_def lower_idem)
  have "lower ''FIX BUG'' = ''fix bug''"
    by code_simp
  with eq [of "''FIX BUG''"] eq [of p] show ?thesis by simp
qed

subsection \<open>C7: a decision for every prompt\<close>

text \<open>
  Claim C7: for every prompt, the empty one and those without letters included, no error
  is raised and the agent returned is one of the six identifiers.
\<close>

theorem route_prompt_total:
  "\<exists>d. route_prompt p = Inr d \<and>
     routing_agent d \<in>
       set [''codex'', ''perplexity'', ''gemini'', ''deepseek'', ''gpai'', ''chatgpt'']"
  using route_prompt_returns [of p] unfolding declared_agents .

subsection \<open>C9: when chatgpt wins\<close>

text \<open>
  Claim C9 says that \<open>chatgpt\<close> is returned only when its score, baseline included, is
  strictly greater than the score of every other agent, and that whenever another agent
  scores as much as \<open>chatgpt\<close> or more, that agent or one declared before it wins. The
  first half holds; the second names the wrong winner. On \<open>code equation\<close> the agent
  \<open>codex\<close> scores 3 against 1 for \<open>chatgpt\<close>, yet the agent returned is \<open>gpai\<close>, which
  scores 8 and is declared after \<open>codex\<close>.
\<close>

theorem agent_ahead_of_chatgpt_need_not_win:
  "final_scores (lower ''code equation'') =
     Inr [(''codex'', 3), (''perplexity'', 0), (''gemini'', 0), (''deepseek'', 0), (''gpai'', 8),
          (''chatgpt'', 1)]
   \<and> route_prompt ''code equation'' =
       Inr \<lparr>routing_agent = ''gpai'', routing_reason = ''Math/logic/puzzle request detected''\<rparr>"
  by code_simp

text \<open>
  Claim C9, amended: \<open>chatgpt\<close> is returned exactly when its score, baseline included, is
  strictly greater than the score of every other agent. Whenever another agent scores as
  much or more, the agent returned is not \<open>chatgpt\<close>: it is the agent that carries the
  maximum score, the first declared among those that do.
\<close>

theorem chatgpt_wins_iff_strictly_ahead:
  "\<exists>sc g m d before after.
     final_scores (lower p) = Inr sc \<and> map_of sc ''chatgpt'' = Some g \<and>
     max_of (map snd sc) = Inr m \<and> route_prompt p = Inr d \<and>
     sc = before @ (routing_agent d, m) # after \<and>
     (\<forall>(a, s) \<in> set before. s < m) \<and> (\<forall>(a, s) \<in> set after. s \<le> m) \<and>
     ((routing_agent d = ''chatgpt'') = (\<forall>(a, s) \<in> set sc. a \<noteq> ''chatgpt'' \<longrightarrow> s < g))"
proof -
  define sc where "sc = map (\<lambda>r. (agent r, spec_score (lower p) r)) classification_rules"
  have fs: "final_scores (lower p) = Inr sc" by (simp add: final_scores_eq sc_def)
  from max_score_pos [OF fs] obtain m where m: "max_of (map snd sc) = Inr m" "1 \<le> m" by blast
  define g where "g = spec_score (lower p) chatgpt_rule"
  have sc6: "sc = map (\<lambda>r. (agent r, spec_score (lower p) r))
                    [codex_rule, perplexity_rule, gemini_rule, deepseek_rule, gpai_rule]
                  @ [(''chatgpt'', g)]"
    by (simp add: sc_def classification_rules_def agent_simps g_def)
  have g: "map_of sc ''chatgpt'' = Some g"
    by (simp add: sc6 agent_simps)
  from select_top_split [OF m(1)] obtain before a after where
    split: "sc = before @ (a, m) # after"
      "\<forall>(b, s) \<in> set before. s < m" "\<forall>(b, s) \<in> set after. s \<le> m"
    and sel: "select_top sc m = Inr (reason_of a classification_rules)"
    by blast
  have dist: "distinct (map fst sc)"
    by (simp add: sc6 agent_simps)
  have "a \<in> set (map fst sc)" using split(1) by simp
  then have "a \<in> set (map agent classification_rules)"
    by (simp add: sc_def comp_def)
  then have a: "routing_agent (reason_of a classification_rules) = a"
    by (rule reason_of_agent)
  have rp: "route_prompt p = Inr (reason_of a classification_rules)"
    using route_prompt_select [OF fs m] sel by simp
  have le_all: "s \<le> m" if "(b, s) \<in> set sc" for b s
    using that split by fastforce
  have "(''chatgpt'', g) \<in> set sc" by (simp add: sc6)
  then have gm: "g \<le> m" by (rule le_all)
  have iff: "(a = ''chatgpt'') = (\<forall>(b, s) \<in> set sc. b \<noteq> ''chatgpt'' \<longrightarrow> s < g)"
  proof
    assume ac: "a = ''chatgpt''"
    have "(''chatgpt'', m) \<in> set sc" using split(1) ac by simp
    with g dist have mg: "m = g" by (metis map_of_eq_Some_iff option.inject)
    have after: "after = []"
    proof (rule ccontr)
      assume ne: "after \<noteq> []"
      then have "last sc = last after" using split(1) by simp
      moreover have "last sc = (''chatgpt'', g)" by (simp add: sc6)
      ultimately have "(''chatgpt'', g) \<in> set after" using ne last_in_set by metis
      then have "''chatgpt'' \<in> set (map fst after)" by force
      moreover have "distinct (map fst before @ a # map fst after)" using dist split(1) by simp
      ultimately show False using ac by simp
    qed
    show "\<forall>(b, s) \<in> set sc. b \<noteq> ''chatgpt'' \<longrightarrow> s < g"
    proof (clarify)
      fix b s assume "(b, s) \<in> set sc" "b \<noteq> ''chatgpt''"
      then have "(b, s) \<in> set before" using split(1) after ac by auto
      with split(2) mg show "s < g" by auto
    qed
  next
    assume all: "\<forall>(b, s) \<in> set sc. b \<noteq> ''chatgpt'' \<longrightarrow> s < g"
    have "(a, m) \<in> set sc" using split(1) by simp
    with all gm show "a = ''chatgpt''" by force
  qed
  have "sc = before @ (routing_agent (reason_of a classification_rules), m) # after"
    using split(1) a by simp
  moreover have "(routing_agent (reason_of a classification_rules) = ''chatgpt'') =
      (\<forall>(b, s) \<in> set sc. b \<noteq> ''chatgpt'' \<longrightarrow> s < g)"
    using iff a by simp
  ultimately show ?thesis
    using fs g m(1) rp split(2,3) by blast
qed

text \<open>
  On \<open>opinion on code\<close> one pattern of \<open>codex\<close> and the pattern of \<open>chatgpt\<close> match:
  3 against 3 + 1, and \<open>chatgpt\<close> is returned.
\<close>

theorem chatgpt_wins_iff_strictly_ahead_witness:
  "\<exists>d. route_prompt ''opinion on code'' = Inr d \<and> routing_agent d = ''chatgpt''"
proof -
  from chatgpt_wins_iff_strictly_ahead [of "''opinion on code''"] obtain sc g m d before after where
    fs: "final_scores (lower ''opinion on code'') = Inr sc" and
    g: "map_of sc ''chatgpt'' = Some g" and
    rp: "route_prompt ''opinion on code'' = Inr d" and
    iff: "(routing_agent d = ''chatgpt'') = (\<forall>(a, s) \<in> set sc. a \<noteq> ''chatgpt'' \<longrightarrow> s < g)"
    by blast
  have "final_scores (lower ''opinion on code'') =
      Inr [(''codex'', 3), (''perplexity'', 0), (''gemini'', 0), (''deepseek'', 0), (''gpai'', 0),
           (''chatgpt'', 4)]"
    by code_simp
  with fs have sc: "sc = [(''codex'', 3), (''perplexity'', 0), (''gemini'', 0), (''deepseek'', 0),
                          (''gpai'', 0), (''chatgpt'', 4)]"
    by simp
  with g have "g = 4" by simp
  with iff sc have "routing_agent d = ''chatgpt''" by simp
  with rp show ?thesis by blast
qed

subsection \<open>C10: the history of a session\<close>

text \<open>
  Claim C10: after a successful \<open>/prompt\<close> request the history of the session holds the
  entry of that request first, followed by the earlier entries, cut to 10 entries in all.
  The decision in the reply is that of the classifier on the prompt alone, which has no
  access to the session; the subscriptions are left as they were.
\<close>

theorem handle_prompt_history:
  assumes "handle_prompt w data text now = Inr (Success_reply r resp, w')"
  shows "\<exists>entry rest.
           session_history w' = Some (entry # rest) \<and>
           length (entry # rest) \<le> 10 \<and>
           entry # rest =
             take 10 (entry # (case session_history w of None \<Rightarrow> [] | Some h \<Rightarrow> h)) \<and>
           he_prompt entry =
             take 60 (prompt_of data) @ (if 60 < length (prompt_of data) then ''...'' else []) \<and>
           he_agent entry = resp_agent resp \<and>
           he_timestamp entry = timestamp resp \<and>
           he_routing_reason entry = routing_reason r \<and>
           route_prompt (prompt_of data) = Inr r \<and>
           subscriptions w' = subscriptions w"
  using assms
  by (auto simp: handle_prompt_def Let_def split: sum.splits if_splits)

text \<open>
  A session that already holds 10 entries: the new entry comes first and the oldest one is
  dropped.
\<close>

theorem handle_prompt_history_witness:
  "handle_prompt
     \<lparr>subscriptions = [(''chatgpt'', True), (''gemini'', True), (''deepseek'', True),
                       (''perplexity'', True), (''gpai'', True), (''codex'', True)],
      session_history = Some (replicate 10
        \<lparr>he_prompt = ''hi'', he_agent = ''ChatGPT'', he_timestamp = ''11:59:00'',
         he_routing_reason = ''General knowledge/conversational query''\<rparr>)\<rparr>
     [(''prompt'', ''fix bug'')] ''answer'' ''12:00:00'' =
   Inr (Success_reply
          \<lparr>routing_agent = ''codex'', routing_reason = ''Programming/code request detected''\<rparr>
          \<lparr>resp_agent = ''Codex'', agent_color = ''#ff6e4a'', response_text = ''answer'',
           timestamp = ''12:00:00''\<rparr>,
        \<lparr>subscriptions = [(''chatgpt'', True), (''gemini'', True), (''deepseek'', True),
                          (''perplexity'', True), (''gpai'', True), (''codex'', True)],
         session_history = Some (
           \<lparr>he_prompt = ''fix bug'', he_agent = ''Codex'', he_timestamp = ''12:00:00'',
            he_routing_reason = ''Programming/code request detected''\<rparr>
           # replicate 9
               \<lparr>he_prompt = ''hi'', he_agent = ''ChatGPT'', he_timestamp = ''11:59:00'',
                he_routing_reason = ''General knowledge/conversational query''\<rparr>)\<rparr>)"
proof -
  have rp: "route_prompt ''fix bug'' =
      Inr \<lparr>routing_agent = ''codex'', routing_reason = ''Programming/code request detected''\<rparr>"
    by code_simp
  have run: ?thesis
    by (simp add: handle_prompt_def prompt_of_def rp is_subscribed_def agent_functions_def
          call_codex_def Let_def eval_nat_numeral)
  from handle_prompt_history [OF run] run show ?thesis by simp
qed

end
